theory Spec2Isabelle
  imports
    Main
    "HOL-Library.Multiset"
    "HOL-Library.Char_ord"
    "HOL-Library.List_Lexorder"
    "HOL-Library.Option_ord"
    "HOL-Library.Product_Lexorder"
begin

section \<open>The tables of the feed\<close>

text \<open>
  \<^verbatim>\<open>train_schedule.py\<close> reads four files of the extracted GTFS feed with
  \<^verbatim>\<open>pd.read_csv\<close> and works on the frames it gets. A frame is the list of its rows,
  in file order; a row is a record of the columns the program uses. Identifiers and
  names are strings. A cell left empty in the file is a missing value in the frame:
  the head sign of a trip is optional in GTFS, so that column is a \<open>string option\<close>.
  The day columns of \<^verbatim>\<open>calendar.txt\<close> hold integers; the program tests them with
  \<^verbatim>\<open>== 1\<close>.
\<close>

record stops_row =
  stops_stop_id :: string
  stops_stop_name :: string

text \<open>
  The column \<^verbatim>\<open>arrival_time\<close> of \<^verbatim>\<open>stop_times.txt\<close> is text in the file and a
  time of day (or the missing value \<^verbatim>\<open>NaT\<close>) after line 105; the row type is
  polymorphic in it.
\<close>

record 'a stop_times_row =
  st_trip_id :: string
  st_arrival_time :: 'a
  st_departure_time :: string
  st_stop_id :: string

record trips_row =
  tr_route_id :: string
  tr_service_id :: string
  tr_trip_id :: string
  tr_trip_headsign :: "string option"

record calendar_row =
  cal_service_id :: string
  monday :: int
  tuesday :: int
  wednesday :: int
  thursday :: int
  friday :: int
  saturday :: int
  sunday :: int

text \<open>
  The directory \<^verbatim>\<open>extract_path\<close>: the four files \<^verbatim>\<open>get_next_train\<close> reads.
\<close>

record feed =
  stops_txt :: "stops_row list"
  stop_times_txt :: "string stop_times_row list"
  trips_txt :: "trips_row list"
  calendar_txt :: "calendar_row list"

section \<open>Times of day and the query instant\<close>

text \<open>
  A \<^verbatim>\<open>datetime.time\<close> is (hour, minute, second, microsecond); Python compares two
  of them as it compares these tuples, which is the lexicographic order of
  the library theory \<^verbatim>\<open>Product_Lexorder\<close>.
\<close>

type_synonym time = "nat \<times> nat \<times> nat \<times> nat"

datatype weekday = Monday | Tuesday | Wednesday | Thursday | Friday | Saturday | Sunday

text \<open>
  What the program uses of \<^verbatim>\<open>datetime.now()\<close>: the name of the day
  (\<^verbatim>\<open>strftime('%A').lower()\<close>, the column of \<^verbatim>\<open>calendar.txt\<close> to look at) and the
  time of day (\<^verbatim>\<open>.time()\<close>, microseconds included).
\<close>

record datetime =
  dt_weekday :: weekday
  dt_time :: time

fun day_column :: "weekday \<Rightarrow> calendar_row \<Rightarrow> int" where
  "day_column Monday c = monday c"
| "day_column Tuesday c = tuesday c"
| "day_column Wednesday c = wednesday c"
| "day_column Thursday c = thursday c"
| "day_column Friday c = friday c"
| "day_column Saturday c = saturday c"
| "day_column Sunday c = sunday c"

section \<open>Parsing \<^verbatim>\<open>arrival_time\<close> (line 105)\<close>

text \<open>
  \<^verbatim>\<open>pd.to_datetime(col, format='%H:%M:%S', errors='coerce').dt.time\<close>: a string
  matches when it is an hour, a minute and a second separated by colons, each written
  with one or two ASCII digits, the hour at most 23, minute and second at most 59.
  Anything else (\<^verbatim>\<open>25:30:00\<close>, an empty cell, surrounding blanks) is coerced to
  \<^verbatim>\<open>NaT\<close>, here \<open>None\<close>. The time of day of a parsed value has microsecond 0.
\<close>

definition is_digit :: "char \<Rightarrow> bool" where
  "is_digit c \<longleftrightarrow> (48::nat) \<le> of_char c \<and> of_char c \<le> (57::nat)"

definition digit_val :: "char \<Rightarrow> nat" where
  "digit_val c = of_char c - 48"

fun field :: "string \<Rightarrow> nat option" where
  "field [a] = (if is_digit a then Some (digit_val a) else None)"
| "field [a, b] =
     (if is_digit a \<and> is_digit b then Some (10 * digit_val a + digit_val b) else None)"
| "field _ = None"

text \<open>\<^verbatim>\<open>s.split(':')\<close>: the pieces between the colons, empty pieces included.\<close>

fun split_colon :: "string \<Rightarrow> string list" where
  "split_colon [] = [[]]"
| "split_colon (c # cs) =
     (if c = CHR '':'' then [] # split_colon cs
      else (case split_colon cs of
              [] \<Rightarrow> [[c]]
            | p # ps \<Rightarrow> (c # p) # ps))"

definition strptime_HMS :: "string \<Rightarrow> time option" where
  "strptime_HMS s =
     (case split_colon s of
        [h, m, sec] \<Rightarrow>
          (case (field h, field m, field sec) of
             (Some H, Some M, Some S) \<Rightarrow>
               if H \<le> 23 \<and> M \<le> 59 \<and> S \<le> 59 then Some (H, M, S, 0) else None
           | _ \<Rightarrow> None)
      | _ \<Rightarrow> None)"

section \<open>The frames of \<^verbatim>\<open>get_next_train\<close>\<close>

text \<open>
  The six columns the program prints at line 130 are a departure; the frame it
  works on from the merge of line 111 on has \<^verbatim>\<open>service_id\<close> as well.
\<close>

record departure =
  stop_id :: string
  trip_id :: string
  arrival_time :: "time option"
  departure_time :: string
  route_id :: string
  trip_headsign :: "string option"

record train = departure +
  service_id :: string

text \<open>Line 94: the \<^verbatim>\<open>stop_id\<close>s of the stops whose name is the station's.\<close>

definition station_stop_ids :: "stops_row list \<Rightarrow> string \<Rightarrow> string list" where
  "station_stop_ids stops station_name =
     map stops_stop_id [s \<leftarrow> stops. stops_stop_name s = station_name]"

text \<open>
  Line 101: \<^verbatim>\<open>stop_times[stop_times['stop_id'].isin(station_stop_ids)]\<close>. Indexing
  with a boolean mask gives a new frame, not a view of \<^verbatim>\<open>stop_times\<close>.
\<close>

definition filter_stop_times ::
  "'a stop_times_row list \<Rightarrow> string list \<Rightarrow> 'a stop_times_row list" where
  "filter_stop_times stop_times ids = [r \<leftarrow> stop_times. st_stop_id r \<in> set ids]"

text \<open>Line 105: the column \<^verbatim>\<open>arrival_time\<close> of that new frame is replaced.\<close>

definition parse_row :: "string stop_times_row \<Rightarrow> time option stop_times_row" where
  "parse_row r =
     \<lparr>st_trip_id = st_trip_id r,
      st_arrival_time = strptime_HMS (st_arrival_time r),
      st_departure_time = st_departure_time r,
      st_stop_id = st_stop_id r\<rparr>"

definition to_datetime_time ::
  "string stop_times_row list \<Rightarrow> time option stop_times_row list" where
  "to_datetime_time filtered_stop_times = map parse_row filtered_stop_times"

text \<open>
  Line 108: \<^verbatim>\<open>arrival_time > current_time.time()\<close>. The comparison of a column of
  objects with a scalar is false on a missing value.
\<close>

definition later_than :: "time option \<Rightarrow> time \<Rightarrow> bool" where
  "later_than a t = (case a of None \<Rightarrow> False | Some x \<Rightarrow> t < x)"

definition after_now ::
  "time option stop_times_row list \<Rightarrow> time \<Rightarrow> time option stop_times_row list" where
  "after_now filtered_stop_times t = [r \<leftarrow> filtered_stop_times. later_than (st_arrival_time r) t]"

text \<open>
  Line 111: \<^verbatim>\<open>pd.merge(upcoming_trains, trips, on='trip_id')\<close>, an inner join. The
  rows come in the order of the left frame, a left row with several matching trips
  giving one row for each, in the order of \<^verbatim>\<open>trips\<close>; a left row with none is dropped.
\<close>

definition merge_row :: "time option stop_times_row \<Rightarrow> trips_row \<Rightarrow> train" where
  "merge_row l t =
     \<lparr>stop_id = st_stop_id l,
      trip_id = st_trip_id l,
      arrival_time = st_arrival_time l,
      departure_time = st_departure_time l,
      route_id = tr_route_id t,
      trip_headsign = tr_trip_headsign t,
      service_id = tr_service_id t\<rparr>"

definition merge_on_trip_id ::
  "time option stop_times_row list \<Rightarrow> trips_row list \<Rightarrow> train list" where
  "merge_on_trip_id left trips =
     concat (map (\<lambda>l. map (merge_row l) [t \<leftarrow> trips. tr_trip_id t = st_trip_id l]) left)"

text \<open>Lines 114 to 116: the services that run on the day of the query.\<close>

definition running_today :: "calendar_row list \<Rightarrow> weekday \<Rightarrow> calendar_row list" where
  "running_today calendar current_day = [c \<leftarrow> calendar. day_column current_day c = 1]"

definition service_isin :: "train list \<Rightarrow> calendar_row list \<Rightarrow> train list" where
  "service_isin upcoming_trains calendar =
     [r \<leftarrow> upcoming_trains. service_id r \<in> set (map cal_service_id calendar)]"

text \<open>
  The frame \<^verbatim>\<open>upcoming_trains\<close> as it stands after line 116, rows in the order the
  joins and filters leave them in (the order of \<^verbatim>\<open>stop_times.txt\<close>).
\<close>

definition upcoming_trains :: "feed \<Rightarrow> string list \<Rightarrow> datetime \<Rightarrow> train list" where
  "upcoming_trains fd ids current_time =
     service_isin
       (merge_on_trip_id
          (after_now (to_datetime_time (filter_stop_times (stop_times_txt fd) ids))
             (dt_time current_time))
          (trips_txt fd))
       (running_today (calendar_txt fd) (dt_weekday current_time))"

text \<open>
  Line 119: \<^verbatim>\<open>sort_values(by=['trip_headsign', 'arrival_time'])\<close>. With several
  columns pandas sorts lexicographically and stably (the \<^verbatim>\<open>kind\<close> argument applies
  to one column only), missing values last in each column: \<open>sort_key\<close>, the stable
  insertion sort of the list library, on the pair of keys.
\<close>

definition na_last :: "'a option \<Rightarrow> bool \<times> 'a option" where
  "na_last v = (v = None, v)"

definition sort_by_headsign_arrival :: "train list \<Rightarrow> train list" where
  "sort_by_headsign_arrival xs =
     sort_key (\<lambda>r. (na_last (trip_headsign r), na_last (arrival_time r))) xs"

text \<open>
  Line 124: \<^verbatim>\<open>groupby('trip_headsign').apply(lambda x: x.head(n)).reset_index(drop=True)\<close>.
  The groups are the head signs present, in ascending order; a row with no head sign
  is in no group. \<^verbatim>\<open>head(n)\<close> is the slice \<^verbatim>\<open>[:n]\<close>: the first \<open>n\<close> rows, and all but
  the last \<open>-n\<close> when \<open>n\<close> is negative.
\<close>

definition head :: "int \<Rightarrow> 'a list \<Rightarrow> 'a list" where
  "head n xs = (if 0 \<le> n then take (nat n) xs else take (length xs - nat (- n)) xs)"

definition group_keys :: "train list \<Rightarrow> string list" where
  "group_keys xs = sort (remdups (List.map_filter trip_headsign xs))"

definition groupby_head :: "int \<Rightarrow> train list \<Rightarrow> train list" where
  "groupby_head n xs =
     concat (map (\<lambda>h. head n [r \<leftarrow> xs. trip_headsign r = Some h]) (group_keys xs))"

definition next_trains_per_headsign :: "feed \<Rightarrow> string list \<Rightarrow> int \<Rightarrow> datetime \<Rightarrow> train list" where
  "next_trains_per_headsign fd ids num_trains_per_route current_time =
     groupby_head num_trains_per_route
       (sort_by_headsign_arrival (upcoming_trains fd ids current_time))"

text \<open>
  Line 127: \<^verbatim>\<open>sort_values(by='arrival_time')\<close>, one column and no \<^verbatim>\<open>kind\<close>, so the
  default \<^verbatim>\<open>'quicksort'\<close>. The pandas documentation of \<^verbatim>\<open>sort_values\<close> states that
  \<^verbatim>\<open>'mergesort'\<close> and \<^verbatim>\<open>'stable'\<close> are the only stable algorithms: what this call
  promises is the rows in ascending order of the column, missing values last. The
  sorting routine is therefore an argument \<open>quicksort\<close> of the model, and
  \<open>sorts_by_arrival\<close> is what is known of it.
\<close>

definition arrival_key :: "'a departure_scheme \<Rightarrow> bool \<times> time option" where
  "arrival_key r = na_last (arrival_time r)"

definition sorts_by_arrival :: "(train list \<Rightarrow> train list) \<Rightarrow> bool" where
  "sorts_by_arrival quicksort \<longleftrightarrow>
     (\<forall>xs. mset (quicksort xs) = mset xs \<and> sorted (map arrival_key (quicksort xs)))"

definition sort_by_arrival ::
  "(train list \<Rightarrow> train list) \<Rightarrow> feed \<Rightarrow> string list \<Rightarrow> int \<Rightarrow> datetime \<Rightarrow> train list" where
  "sort_by_arrival quicksort fd ids num_trains_per_route current_time =
     quicksort (next_trains_per_headsign fd ids num_trains_per_route current_time)"

text \<open>
  What the program prints: the messages of \<^verbatim>\<open>get_next_train\<close> and the frame of
  line 130; and, on the refresh path, the two messages of \<^verbatim>\<open>fetch_gtfs_data\<close>, the
  three lines of \<^verbatim>\<open>extract_gtfs_info\<close> and the first rows of a file, by its name.
\<close>

datatype printed =
    No_station_found string
  | Station_found string "string list"
  | Next_trains string
  | Frame "departure list"
  | Saved
  | Failed_to_download int
  | Gtfs_data_information
  | Head string string

text \<open>
  \<^verbatim>\<open>get_next_train\<close> returns no value on either path; what it yields is what it
  prints. The model returns the printed lines, and the feed directory as it is after
  the call: the function reads the four files and writes none.
\<close>

definition get_next_train ::
  "(train list \<Rightarrow> train list) \<Rightarrow> string \<Rightarrow> int \<Rightarrow> datetime \<Rightarrow> feed \<Rightarrow> printed list \<times> feed" where
  "get_next_train quicksort station_name num_trains_per_route current_time fd =
     (let ids = station_stop_ids (stops_txt fd) station_name in
      if ids = [] then ([No_station_found station_name], fd)
      else
        ([Station_found station_name ids,
          Next_trains station_name,
          Frame (map departure.truncate
                   (sort_by_arrival quicksort fd ids num_trains_per_route current_time))],
         fd))"

text \<open>The departures a run printed.\<close>

fun departures :: "printed list \<Rightarrow> departure list" where
  "departures [] = []"
| "departures (Frame ds # ps) = ds @ departures ps"
| "departures (_ # ps) = departures ps"

section \<open>The scenario of the specification\<close>

text \<open>
  Three stops, two of them platforms of station A; a trip to each of three head signs,
  all on a service that runs on weekdays; a row at platform S1 whose arrival time is
  written past midnight, as GTFS allows; and two more trips to North, T4 two minutes
  after T1 and T5 at the same time as T1, from the other platform.
\<close>

definition scenario :: feed where
  "scenario =
     \<lparr>stops_txt =
        [\<lparr>stops_stop_id = ''S1'', stops_stop_name = ''A''\<rparr>,
         \<lparr>stops_stop_id = ''S2'', stops_stop_name = ''A''\<rparr>,
         \<lparr>stops_stop_id = ''S3'', stops_stop_name = ''B''\<rparr>],
      stop_times_txt =
        [\<lparr>st_trip_id = ''T1'', st_arrival_time = ''08:00:00'',
          st_departure_time = ''08:01:00'', st_stop_id = ''S1''\<rparr>,
         \<lparr>st_trip_id = ''T2'', st_arrival_time = ''08:05:00'',
          st_departure_time = ''08:06:00'', st_stop_id = ''S2''\<rparr>,
         \<lparr>st_trip_id = ''T3'', st_arrival_time = ''08:10:00'',
          st_departure_time = ''08:11:00'', st_stop_id = ''S3''\<rparr>,
         \<lparr>st_trip_id = ''T1'', st_arrival_time = ''25:30:00'',
          st_departure_time = ''25:31:00'', st_stop_id = ''S1''\<rparr>,
         \<lparr>st_trip_id = ''T4'', st_arrival_time = ''08:02:00'',
          st_departure_time = ''08:03:00'', st_stop_id = ''S1''\<rparr>,
         \<lparr>st_trip_id = ''T5'', st_arrival_time = ''08:00:00'',
          st_departure_time = ''08:01:00'', st_stop_id = ''S2''\<rparr>],
      trips_txt =
        [\<lparr>tr_route_id = ''R1'', tr_service_id = ''Svc1'', tr_trip_id = ''T1'',
          tr_trip_headsign = Some ''North''\<rparr>,
         \<lparr>tr_route_id = ''R1'', tr_service_id = ''Svc1'', tr_trip_id = ''T2'',
          tr_trip_headsign = Some ''South''\<rparr>,
         \<lparr>tr_route_id = ''R2'', tr_service_id = ''Svc1'', tr_trip_id = ''T3'',
          tr_trip_headsign = Some ''East''\<rparr>,
         \<lparr>tr_route_id = ''R1'', tr_service_id = ''Svc1'', tr_trip_id = ''T4'',
          tr_trip_headsign = Some ''North''\<rparr>,
         \<lparr>tr_route_id = ''R1'', tr_service_id = ''Svc1'', tr_trip_id = ''T5'',
          tr_trip_headsign = Some ''North''\<rparr>],
      calendar_txt =
        [\<lparr>cal_service_id = ''Svc1'', monday = 1, tuesday = 1, wednesday = 1, thursday = 1,
          friday = 1, saturday = 0, sunday = 0\<rparr>]\<rparr>"

definition monday_7am :: datetime where
  "monday_7am = \<lparr>dt_weekday = Monday, dt_time = (7, 0, 0, 0)\<rparr>"

definition north_8am :: departure where
  "north_8am =
     \<lparr>stop_id = ''S1'', trip_id = ''T1'', arrival_time = Some (8, 0, 0, 0),
      departure_time = ''08:01:00'', route_id = ''R1'', trip_headsign = Some ''North''\<rparr>"

definition south_8am :: departure where
  "south_8am =
     \<lparr>stop_id = ''S2'', trip_id = ''T2'', arrival_time = Some (8, 5, 0, 0),
      departure_time = ''08:06:00'', route_id = ''R1'', trip_headsign = Some ''South''\<rparr>"


section \<open>Refreshing the feed (\<^verbatim>\<open>--fetch\<close>)\<close>

text \<open>
  The answer of the server to \<^verbatim>\<open>requests.get(url)\<close> is its status code and its
  body. A body is a ZIP archive of named files or it is not one. On disk there is the
  archive at \<^verbatim>\<open>save_path\<close>, if one was ever saved, and the files under
  \<^verbatim>\<open>extract_path\<close>.
\<close>

datatype archive = Zip "(string \<times> string) list" | Not_a_zip

record response =
  status_code :: int
  content :: archive

record disk =
  saved :: "archive option"
  extracted :: "(string \<times> string) list"

datatype py_error = FileNotFoundError | BadZipFile

text \<open>
  Lines 148 to 154: one request; the body is written when the status is 200, any
  other status is printed. The function returns normally in both cases.
\<close>

definition fetch_gtfs_data :: "response \<Rightarrow> disk \<Rightarrow> printed list \<times> disk" where
  "fetch_gtfs_data response dk =
     (if status_code response = 200 then ([Saved], dk\<lparr>saved := Some (content response)\<rparr>)
      else ([Failed_to_download (status_code response)], dk))"

text \<open>
  Lines 40 to 46: three lines are printed, then \<^verbatim>\<open>zipfile.ZipFile(save_path, 'r')\<close>
  opens the archive, which raises when there is no file or the file is no archive, and
  \<^verbatim>\<open>extractall\<close> writes its members, over the files of the same name.
\<close>

definition extract_gtfs_info :: "disk \<Rightarrow> printed list \<times> (py_error + disk)" where
  "extract_gtfs_info dk =
     ([Gtfs_data_information],
      case saved dk of
        None \<Rightarrow> Inl FileNotFoundError
      | Some Not_a_zip \<Rightarrow> Inl BadZipFile
      | Some (Zip members) \<Rightarrow> Inr (dk\<lparr>extracted := members @ extracted dk\<rparr>))"

text \<open>
  Lines 53 to 70: the four files are read in turn and the first rows of each are
  printed; \<^verbatim>\<open>pd.read_csv\<close> raises on a file that is not there.
\<close>

fun print_heads :: "(string \<times> string) list \<Rightarrow> string list \<Rightarrow> printed list \<times> py_error option" where
  "print_heads files [] = ([], None)"
| "print_heads files (name # names) =
     (case map_of files name of
        None \<Rightarrow> ([], Some FileNotFoundError)
      | Some text \<Rightarrow>
          (case print_heads files names of (ps, e) \<Rightarrow> (Head name text # ps, e)))"

definition print_gtfs_info :: "disk \<Rightarrow> printed list \<times> py_error option" where
  "print_gtfs_info dk =
     print_heads (extracted dk) [''stops.txt'', ''routes.txt'', ''trips.txt'', ''stop_times.txt'']"

text \<open>
  Lines 169 to 172, the branch of \<^verbatim>\<open>if fetch_data\<close>: the three calls one after the
  other, with nothing between them. The run gives what was printed, the exception that
  ended it if one did, and the disk.
\<close>

definition main_fetch :: "response \<Rightarrow> disk \<Rightarrow> printed list \<times> py_error option \<times> disk" where
  "main_fetch response dk =
     (case fetch_gtfs_data response dk of
        (p1, dk1) \<Rightarrow>
          (case extract_gtfs_info dk1 of
             (p2, Inl e) \<Rightarrow> (p1 @ p2, Some e, dk1)
           | (p2, Inr dk2) \<Rightarrow>
               (case print_gtfs_info dk2 of (p3, e) \<Rightarrow> (p1 @ p2 @ p3, e, dk2))))"

section \<open>Eighteen trains at the same second\<close>




section \<open>Lemmas on the frames\<close>

lemma arrival_time_truncate [simp]: "arrival_time (departure.truncate r) = arrival_time r"
  by (simp add: departure.truncate_def)

lemma truncate_columns [simp]:
  "stop_id (departure.truncate r) = stop_id r"
  "trip_id (departure.truncate r) = trip_id r"
  "departure_time (departure.truncate r) = departure_time r"
  "route_id (departure.truncate r) = route_id r"
  "trip_headsign (departure.truncate r) = trip_headsign r"
  by (simp_all add: departure.truncate_def)

lemma departures_get_next_train:
  "departures (fst (get_next_train q s n now fd)) =
     (if station_stop_ids (stops_txt fd) s = [] then []
      else map departure.truncate (sort_by_arrival q fd (station_stop_ids (stops_txt fd) s) n now))"
  by (simp add: get_next_train_def Let_def)

lemma sorts_by_arrival_set: "sorts_by_arrival q \<Longrightarrow> set (q xs) = set xs"
  unfolding sorts_by_arrival_def by (metis mset_eq_setD)

lemma sorts_by_arrival_mset: "sorts_by_arrival q \<Longrightarrow> mset (q xs) = mset xs"
  unfolding sorts_by_arrival_def by blast


lemma sort_key_sorts_by_arrival: "sorts_by_arrival (sort_key arrival_key)"
  by (simp add: sorts_by_arrival_def)


lemma set_head_subset: "set (head n xs) \<subseteq> set xs"
  by (simp add: head_def set_take_subset)

lemma set_groupby_head_subset: "set (groupby_head n xs) \<subseteq> set xs"
  using set_head_subset by (fastforce simp: groupby_head_def)

lemma set_next_trains_subset:
  "set (next_trains_per_headsign fd ids n now) \<subseteq> set (upcoming_trains fd ids now)"
  using set_groupby_head_subset [of n "sort_by_headsign_arrival (upcoming_trains fd ids now)"]
  by (simp add: next_trains_per_headsign_def sort_by_headsign_arrival_def)

text \<open>Where a row of \<^verbatim>\<open>upcoming_trains\<close> comes from, and the filters it passed.\<close>

lemma upcoming_trains_row:
  assumes "r \<in> set (upcoming_trains fd ids now)"
  obtains l t c where
    "l \<in> set (stop_times_txt fd)" "t \<in> set (trips_txt fd)" "c \<in> set (calendar_txt fd)"
    "r = merge_row (parse_row l) t"
    "st_stop_id l \<in> set ids"
    "later_than (strptime_HMS (st_arrival_time l)) (dt_time now)"
    "tr_trip_id t = st_trip_id l"
    "cal_service_id c = tr_service_id t"
    "day_column (dt_weekday now) c = 1"
  using assms
  by (auto simp: upcoming_trains_def service_isin_def merge_on_trip_id_def after_now_def
      to_datetime_time_def filter_stop_times_def running_today_def parse_row_def merge_row_def)

lemma sort_by_arrival_row:
  assumes "sorts_by_arrival q" "r \<in> set (sort_by_arrival q fd ids n now)"
  shows "r \<in> set (upcoming_trains fd ids now)"
proof -
  from assms have "r \<in> set (next_trains_per_headsign fd ids n now)"
    by (simp add: sort_by_arrival_def sorts_by_arrival_set)
  with set_next_trains_subset show ?thesis by blast
qed

text \<open>A printed departure is the six columns of a row of \<^verbatim>\<open>upcoming_trains\<close>.\<close>

lemma departure_row:
  assumes "sorts_by_arrival q"
    and "d \<in> set (departures (fst (get_next_train q s n now fd)))"
  obtains r where
    "r \<in> set (upcoming_trains fd (station_stop_ids (stops_txt fd) s) now)"
    "d = departure.truncate r"
proof -
  from assms(2) obtain r where
    r: "r \<in> set (sort_by_arrival q fd (station_stop_ids (stops_txt fd) s) n now)"
      "d = departure.truncate r"
    by (auto simp: departures_get_next_train split: if_splits)
  from sort_by_arrival_row [OF assms(1) r(1)] r(2) that show thesis by blast
qed

lemma merge_row_columns [simp]:
  "arrival_time (merge_row l t) = st_arrival_time l"
  "stop_id (merge_row l t) = st_stop_id l"
  "trip_id (merge_row l t) = st_trip_id l"
  "departure_time (merge_row l t) = st_departure_time l"
  "route_id (merge_row l t) = tr_route_id t"
  "trip_headsign (merge_row l t) = tr_trip_headsign t"
  "service_id (merge_row l t) = tr_service_id t"
  by (simp_all add: merge_row_def)

lemma parse_row_columns [simp]:
  "st_arrival_time (parse_row l) = strptime_HMS (st_arrival_time l)"
  "st_stop_id (parse_row l) = st_stop_id l"
  "st_trip_id (parse_row l) = st_trip_id l"
  "st_departure_time (parse_row l) = st_departure_time l"
  by (simp_all add: parse_row_def)

lemma later_than_Some: "later_than a t \<Longrightarrow> \<exists>x. a = Some x \<and> t < x"
  by (cases a) (simp_all add: later_than_def)

lemma departure_arrival:
  assumes "sorts_by_arrival q"
    and "d \<in> set (departures (fst (get_next_train q s n now fd)))"
  shows "\<exists>t. arrival_time d = Some t \<and> dt_time now < t"
proof -
  from departure_row [OF assms] obtain r where
    r: "r \<in> set (upcoming_trains fd (station_stop_ids (stops_txt fd) s) now)"
      "d = departure.truncate r" .
  from upcoming_trains_row [OF r(1)] obtain l t where
    "r = merge_row (parse_row l) t"
    "later_than (strptime_HMS (st_arrival_time l)) (dt_time now)"
    by metis
  with r(2) later_than_Some show ?thesis by fastforce
qed

subsection \<open>Sorting and grouping\<close>


lemma arrival_key_eq_iff: "arrival_key r = arrival_key r' \<longleftrightarrow> arrival_time r = arrival_time r'"
  by (auto simp add: arrival_key_def na_last_def)

lemma insort_key_cong_le:
  "\<forall>y\<in>set ys. (f x \<le> f y) = (g x \<le> g y) \<Longrightarrow> insort_key f x ys = insort_key g x ys"
  by (induction ys) auto

text \<open>Two keys that order the rows of a list alike sort it alike.\<close>

lemma sort_key_cong_le:
  "\<forall>x\<in>set xs. \<forall>y\<in>set xs. (f x \<le> f y) = (g x \<le> g y) \<Longrightarrow> sort_key f xs = sort_key g xs"
proof (induction xs)
  case Nil
  then show ?case by simp
next
  case (Cons x xs)
  then have IH: "sort_key f xs = sort_key g xs" by simp
  have "insort_key f x (sort_key g xs) = insort_key g x (sort_key g xs)"
    using Cons.prems by (intro insort_key_cong_le) simp
  with IH show ?case by simp
qed

lemma filter_concat_groups:
  assumes "distinct ks" "\<forall>k\<in>set ks. \<forall>x\<in>set (g k). key x = k"
  shows "[x \<leftarrow> concat (map g ks). key x = h] = (if h \<in> set ks then g h else [])"
  using assms
proof (induction ks)
  case Nil
  then show ?case by simp
next
  case (Cons k ks)
  have here: "[x \<leftarrow> g k. key x = h] = (if k = h then g k else [])"
    using Cons.prems(2) by (auto simp: filter_empty_conv intro: filter_True)
  from Cons show ?case by (auto simp: here)
qed

lemma group_keys_distinct: "distinct (group_keys xs)"
  by (simp add: group_keys_def)

lemma group_keys_set: "set (group_keys xs) = {h. \<exists>r\<in>set xs. trip_headsign r = Some h}"
  by (force simp: group_keys_def List.map_filter_def image_iff)

text \<open>The rows of one head sign after line 124: the head of that group.\<close>

lemma filter_groupby_head:
  "[r \<leftarrow> groupby_head n xs. trip_headsign r = Some h] = head n [r \<leftarrow> xs. trip_headsign r = Some h]"
proof -
  let ?g = "\<lambda>h. head n [r \<leftarrow> xs. trip_headsign r = Some h]"
  have elems: "\<forall>k\<in>set (group_keys xs). \<forall>x\<in>set (?g k). the (trip_headsign x) = k"
    by (auto simp: head_def dest!: in_set_takeD)
  have some: "\<forall>x\<in>set (concat (map ?g (group_keys xs))). trip_headsign x \<noteq> None"
    by (auto simp: head_def dest!: in_set_takeD)
  have "[r \<leftarrow> groupby_head n xs. trip_headsign r = Some h]
      = [r \<leftarrow> concat (map ?g (group_keys xs)). the (trip_headsign r) = h]"
    unfolding groupby_head_def using some by (intro filter_cong) auto
  also have "\<dots> = (if h \<in> set (group_keys xs) then ?g h else [])"
    using filter_concat_groups [OF group_keys_distinct elems] .
  also have "\<dots> = ?g h"
  proof (cases "h \<in> set (group_keys xs)")
    case True
    then show ?thesis by simp
  next
    case False
    then have "[r \<leftarrow> xs. trip_headsign r = Some h] = []"
      by (auto simp: group_keys_set filter_empty_conv)
    then show ?thesis using False by (simp add: head_def)
  qed
  finally show ?thesis .
qed

text \<open>The rows of one head sign after line 119: that group, sorted by arrival time.\<close>

lemma filter_sort_by_headsign_arrival:
  "[r \<leftarrow> sort_by_headsign_arrival xs. trip_headsign r = Some h]
     = sort_key arrival_key [r \<leftarrow> xs. trip_headsign r = Some h]"
proof -
  let ?K = "\<lambda>r::train. (na_last (trip_headsign r), na_last (arrival_time r))"
  let ?G = "[r \<leftarrow> xs. trip_headsign r = Some h]"
  have "[r \<leftarrow> sort_key ?K xs. trip_headsign r = Some h] = sort_key ?K ?G"
    by (rule filter_sort)
  also have "\<dots> = sort_key arrival_key ?G"
    by (rule sort_key_cong_le) (auto simp: less_eq_prod_def arrival_key_def)
  finally show ?thesis by (simp add: sort_by_headsign_arrival_def)
qed

lemma kept_rows_of_headsign:
  "0 \<le> n \<Longrightarrow>
   [r \<leftarrow> next_trains_per_headsign fd ids n now. trip_headsign r = Some h] =
     take (nat n) (sort_key arrival_key [r \<leftarrow> upcoming_trains fd ids now. trip_headsign r = Some h])"
  by (simp add: next_trains_per_headsign_def filter_groupby_head
      filter_sort_by_headsign_arrival head_def)

lemma sorts_by_arrival_length_filter:
  assumes "sorts_by_arrival q"
  shows "length (filter P (q xs)) = length (filter P xs)"
proof -
  have "mset (filter P (q xs)) = mset (filter P xs)"
    by (simp add: sorts_by_arrival_mset [OF assms])
  then show ?thesis by (rule mset_eq_length)
qed


section \<open>The departures that are printed\<close>

text \<open>
  C2. Every departure the query prints has a parsed arrival time strictly later than
  the time of day of the query instant. A row of \<^verbatim>\<open>stop_times.txt\<close> whose arrival
  time is earlier than that instant, or equal to it, is not printed, with whatever trip
  it is joined: there is no wrap-around to the next day.
\<close>

theorem departures_after_now:
  assumes "sorts_by_arrival quicksort"
    and "d \<in> set (departures (fst (get_next_train quicksort station_name n now fd)))"
  shows "(\<exists>t. arrival_time d = Some t \<and> dt_time now < t) \<and>
         (\<forall>l tr. (\<exists>t. strptime_HMS (st_arrival_time l) = Some t \<and> t \<le> dt_time now) \<longrightarrow>
                 d \<noteq> departure.truncate (merge_row (parse_row l) tr))"
proof -
  from departure_arrival [OF assms] obtain t where
    t: "arrival_time d = Some t" "dt_time now < t" by blast
  have "d \<noteq> departure.truncate (merge_row (parse_row l) tr)"
    if "strptime_HMS (st_arrival_time l) = Some u" "u \<le> dt_time now" for l tr u
  proof
    assume "d = departure.truncate (merge_row (parse_row l) tr)"
    then have "arrival_time d = Some u" using that(1) by simp
    with t that(2) show False by simp
  qed
  with t show ?thesis by blast
qed

theorem departures_after_now_witness:
  "sorts_by_arrival (sort_key arrival_key) \<and>
   north_8am \<in> set (departures (fst (get_next_train (sort_key arrival_key) ''A'' 1 monday_7am scenario))) \<and>
   (\<exists>t. arrival_time north_8am = Some t \<and> dt_time monday_7am < t)"
proof -
  have q: "sorts_by_arrival (sort_key arrival_key)"
    by (rule sort_key_sorts_by_arrival)
  have d: "north_8am \<in> set (departures (fst (get_next_train (sort_key arrival_key) ''A'' 1 monday_7am scenario)))"
    by code_simp
  from departures_after_now [OF q d] q d show ?thesis by blast
qed

text \<open>
  C3. Every departure the query prints belongs to a trip of \<^verbatim>\<open>trips.txt\<close> whose
  service has, in \<^verbatim>\<open>calendar.txt\<close>, a row with the column of the query's weekday equal
  to 1. A row whose service has no such row, in particular one whose service is absent
  from the calendar, is dropped without an error.
\<close>

theorem departures_service_active:
  assumes "sorts_by_arrival quicksort"
    and "d \<in> set (departures (fst (get_next_train quicksort station_name n now fd)))"
  shows "\<exists>t c. t \<in> set (trips_txt fd) \<and> c \<in> set (calendar_txt fd) \<and>
           tr_trip_id t = trip_id d \<and> tr_route_id t = route_id d \<and>
           tr_trip_headsign t = trip_headsign d \<and>
           cal_service_id c = tr_service_id t \<and> day_column (dt_weekday now) c = 1"
proof -
  from departure_row [OF assms] obtain r where
    r: "r \<in> set (upcoming_trains fd (station_stop_ids (stops_txt fd) station_name) now)"
      "d = departure.truncate r" .
  from upcoming_trains_row [OF r(1)] obtain l t c where
    "t \<in> set (trips_txt fd)" "c \<in> set (calendar_txt fd)"
    "r = merge_row (parse_row l) t" "tr_trip_id t = st_trip_id l"
    "cal_service_id c = tr_service_id t" "day_column (dt_weekday now) c = 1"
    by metis
  with r(2) show ?thesis by (intro exI [of _ t] exI [of _ c]) simp
qed

theorem departures_service_active_witness:
  "sorts_by_arrival (sort_key arrival_key) \<and>
   south_8am \<in> set (departures (fst (get_next_train (sort_key arrival_key) ''A'' 1 monday_7am scenario))) \<and>
   (\<exists>t c. t \<in> set (trips_txt scenario) \<and> c \<in> set (calendar_txt scenario) \<and>
      tr_trip_id t = trip_id south_8am \<and> tr_route_id t = route_id south_8am \<and>
      tr_trip_headsign t = trip_headsign south_8am \<and>
      cal_service_id c = tr_service_id t \<and> day_column (dt_weekday monday_7am) c = 1)"
proof -
  have q: "sorts_by_arrival (sort_key arrival_key)"
    by (rule sort_key_sorts_by_arrival)
  have d: "south_8am \<in> set (departures (fst (get_next_train (sort_key arrival_key) ''A'' 1 monday_7am scenario)))"
    by code_simp
  from departures_service_active [OF q d] q d show ?thesis by blast
qed



text \<open>
  C6. When no stop of \<^verbatim>\<open>stops.txt\<close> has the station's name, the query prints the
  one message that no station was found and no departure. That output differs from
  the output of every run in which the station is found, the run that finds the
  station and nothing upcoming included.
\<close>

theorem station_not_found:
  assumes "\<forall>x\<in>set (stops_txt fd). stops_stop_name x \<noteq> station_name"
  shows "fst (get_next_train quicksort station_name n now fd) = [No_station_found station_name] \<and>
         departures (fst (get_next_train quicksort station_name n now fd)) = [] \<and>
         (\<forall>fd' n' now'. (\<exists>x\<in>set (stops_txt fd'). stops_stop_name x = station_name) \<longrightarrow>
            fst (get_next_train quicksort station_name n' now' fd') \<noteq>
            fst (get_next_train quicksort station_name n now fd))"
proof -
  from assms have none: "station_stop_ids (stops_txt fd) station_name = []"
    by (simp add: station_stop_ids_def filter_empty_conv)
  have found: "station_stop_ids (stops_txt fd') station_name \<noteq> []"
    if "\<exists>x\<in>set (stops_txt fd'). stops_stop_name x = station_name" for fd' :: feed
    using that by (simp add: station_stop_ids_def filter_empty_conv)
  show ?thesis
    using none found by (simp add: get_next_train_def Let_def)
qed

theorem station_not_found_witness:
  "fst (get_next_train (sort_key arrival_key) ''C'' 1 monday_7am scenario) = [No_station_found ''C''] \<and>
   departures (fst (get_next_train (sort_key arrival_key) ''C'' 1 monday_7am scenario)) = [] \<and>
   fst (get_next_train (sort_key arrival_key) ''C'' 1 \<lparr>dt_weekday = Sunday, dt_time = (7, 0, 0, 0)\<rparr>
          (scenario\<lparr>stops_txt := \<lparr>stops_stop_id = ''S4'', stops_stop_name = ''C''\<rparr> # stops_txt scenario\<rparr>)) =
     [Station_found ''C'' [''S4''], Next_trains ''C'', Frame []]"
proof -
  have a: "\<forall>x\<in>set (stops_txt scenario). stops_stop_name x \<noteq> ''C''"
    by (simp add: scenario_def)
  have b: "fst (get_next_train (sort_key arrival_key) ''C'' 1 \<lparr>dt_weekday = Sunday, dt_time = (7, 0, 0, 0)\<rparr>
          (scenario\<lparr>stops_txt := \<lparr>stops_stop_id = ''S4'', stops_stop_name = ''C''\<rparr> # stops_txt scenario\<rparr>)) =
     [Station_found ''C'' [''S4''], Next_trains ''C'', Frame []]"
    by code_simp
  from station_not_found [OF a, of "sort_key arrival_key" 1 monday_7am] b show ?thesis by simp
qed

text \<open>
  C7. A second call of the query, made after the first with the same station, the
  same number of trains, at the same instant and with the same sorting routine, prints
  what the first printed.
\<close>

theorem get_next_train_twice:
  "fst (get_next_train quicksort station_name n now
          (snd (get_next_train quicksort station_name n now fd))) =
   fst (get_next_train quicksort station_name n now fd)"
  by (simp add: get_next_train_def Let_def)

text \<open>
  C8. The four tables are after the query what they were before it: the frame whose
  column line 105 replaces is the one line 101 made, and nothing is written back.
\<close>

theorem feed_unchanged:
  "snd (get_next_train quicksort station_name n now fd) = fd"
  by (simp add: get_next_train_def Let_def)



section \<open>Truncation per head sign and the final order\<close>

text \<open>
  C4. For at least one train per head sign, the rows the query keeps of a head sign
  (line 124) are the first \<open>n\<close> rows of that head sign's group in ascending order of
  arrival time. Rows of the group with the same arrival time stand in that order as
  they stand in \<^verbatim>\<open>upcoming_trains\<close>, the sort being stable. So a group contributes at
  most \<open>n\<close> rows, and at most \<open>n\<close> of the printed departures.
\<close>

theorem first_rows_per_headsign:
  assumes "1 \<le> n"
    and "sorts_by_arrival quicksort"
  shows "[r \<leftarrow> next_trains_per_headsign fd ids n now. trip_headsign r = Some h] =
           take (nat n)
             (sort_key arrival_key [r \<leftarrow> upcoming_trains fd ids now. trip_headsign r = Some h]) \<and>
         sorted (map arrival_key
           (sort_key arrival_key [r \<leftarrow> upcoming_trains fd ids now. trip_headsign r = Some h])) \<and>
         [r \<leftarrow> sort_key arrival_key [r \<leftarrow> upcoming_trains fd ids now. trip_headsign r = Some h].
            arrival_time r = a] =
           [r \<leftarrow> [r \<leftarrow> upcoming_trains fd ids now. trip_headsign r = Some h]. arrival_time r = a] \<and>
         length [r \<leftarrow> next_trains_per_headsign fd ids n now. trip_headsign r = Some h] \<le> nat n \<and>
         length [d \<leftarrow> departures (fst (get_next_train quicksort station_name n now fd)).
                   trip_headsign d = Some h] \<le> nat n"
proof -
  let ?G = "\<lambda>ids. [r \<leftarrow> upcoming_trains fd ids now. trip_headsign r = Some h]"
  from assms(1) have n: "0 \<le> n" by simp
  have kept: "[r \<leftarrow> next_trains_per_headsign fd ids n now. trip_headsign r = Some h] =
      take (nat n) (sort_key arrival_key (?G ids))" for ids
    using n by (rule kept_rows_of_headsign)
  have stable: "[r \<leftarrow> sort_key arrival_key (?G ids). arrival_time r = a] =
      [r \<leftarrow> ?G ids. arrival_time r = a]"
  proof -
    have "[r \<leftarrow> sort_key arrival_key (?G ids). arrival_key r = na_last a] =
        [r \<leftarrow> ?G ids. arrival_key r = na_last a]"
      by (rule sort_key_stable)
    moreover have "arrival_key r = na_last a \<longleftrightarrow> arrival_time r = a" for r :: train
      by (auto simp: arrival_key_def na_last_def)
    ultimately show ?thesis by simp
  qed
  have count: "length [r \<leftarrow> next_trains_per_headsign fd ids n now. trip_headsign r = Some h] \<le> nat n"
    for ids
    by (simp add: kept)
  have printed: "length [d \<leftarrow> departures (fst (get_next_train quicksort station_name n now fd)).
      trip_headsign d = Some h] \<le> nat n"
  proof (cases "station_stop_ids (stops_txt fd) station_name = []")
    case True
    then show ?thesis by (simp add: departures_get_next_train)
  next
    case False
    let ?ids = "station_stop_ids (stops_txt fd) station_name"
    have "[d \<leftarrow> map departure.truncate (sort_by_arrival quicksort fd ?ids n now).
             trip_headsign d = Some h] =
          map departure.truncate
            [r \<leftarrow> sort_by_arrival quicksort fd ?ids n now. trip_headsign r = Some h]"
      by (simp add: filter_map comp_def)
    then have "length [d \<leftarrow> departures (fst (get_next_train quicksort station_name n now fd)).
        trip_headsign d = Some h] =
      length [r \<leftarrow> sort_by_arrival quicksort fd ?ids n now. trip_headsign r = Some h]"
      using False by (simp add: departures_get_next_train)
    also have "\<dots> = length [r \<leftarrow> next_trains_per_headsign fd ?ids n now. trip_headsign r = Some h]"
      unfolding sort_by_arrival_def by (rule sorts_by_arrival_length_filter [OF assms(2)])
    also have "\<dots> \<le> nat n" by (rule count)
    finally show ?thesis .
  qed
  from kept [of ids] stable count [of ids] printed show ?thesis by simp
qed

theorem first_rows_per_headsign_witness:
  "(1::int) \<le> 2 \<and> sorts_by_arrival (sort_key arrival_key) \<and>
   map trip_id [r \<leftarrow> upcoming_trains scenario [''S1'', ''S2''] monday_7am.
                  trip_headsign r = Some ''North''] = [''T1'', ''T4'', ''T5''] \<and>
   map trip_id [r \<leftarrow> next_trains_per_headsign scenario [''S1'', ''S2''] 2 monday_7am.
                  trip_headsign r = Some ''North''] = [''T1'', ''T5'']"
proof -
  have n: "(1::int) \<le> 2" by simp
  have q: "sorts_by_arrival (sort_key arrival_key)"
    by (rule sort_key_sorts_by_arrival)
  have g: "map trip_id [r \<leftarrow> upcoming_trains scenario [''S1'', ''S2''] monday_7am.
                  trip_headsign r = Some ''North''] = [''T1'', ''T4'', ''T5'']"
    by code_simp
  have k: "map trip_id (take (nat 2) (sort_key arrival_key
      [r \<leftarrow> upcoming_trains scenario [''S1'', ''S2''] monday_7am. trip_headsign r = Some ''North'']))
      = [''T1'', ''T5'']"
    by code_simp
  from first_rows_per_headsign [OF n q, where fd = scenario and ids = "[''S1'', ''S2'']"
      and now = monday_7am and h = "''North''"]
  have "[r \<leftarrow> next_trains_per_headsign scenario [''S1'', ''S2''] 2 monday_7am.
           trip_headsign r = Some ''North''] =
        take (nat 2) (sort_key arrival_key
          [r \<leftarrow> upcoming_trains scenario [''S1'', ''S2''] monday_7am. trip_headsign r = Some ''North''])"
    by blast
  with n q g k show ?thesis by simp
qed




section \<open>A download that fails\<close>

text \<open>
  C9, at the input where the program departs from it: the server answers 404 and no
  archive was ever saved. \<^verbatim>\<open>fetch_gtfs_data\<close> prints the status, once, and returns;
  the run goes on to \<^verbatim>\<open>extract_gtfs_info\<close>, which prints its lines and ends the
  process with \<^verbatim>\<open>FileNotFoundError\<close>.
\<close>

theorem failed_download_then_extract_raises:
  "fetch_gtfs_data \<lparr>status_code = 404, content = Not_a_zip\<rparr> \<lparr>saved = None, extracted = []\<rparr> =
     ([Failed_to_download 404], \<lparr>saved = None, extracted = []\<rparr>) \<and>
   main_fetch \<lparr>status_code = 404, content = Not_a_zip\<rparr> \<lparr>saved = None, extracted = []\<rparr> =
     ([Failed_to_download 404, Gtfs_data_information], Some FileNotFoundError,
      \<lparr>saved = None, extracted = []\<rparr>)"
  by (simp add: main_fetch_def fetch_gtfs_data_def extract_gtfs_info_def)

end
